theory Spec2Isabelle
  imports Main
begin

section \<open>The signaling server of server.js\<close>

text \<open>
  The server keeps one registry, \<^verbatim>\<open>rooms\<close>, a JavaScript \<^verbatim>\<open>Map\<close> from room
  ids to rooms; a room holds its router and a \<^verbatim>\<open>Map\<close> from peer ids to peers; a peer
  holds its socket and three more \<^verbatim>\<open>Map\<close>s (transports, producers, consumers).
  A JavaScript \<^verbatim>\<open>Map\<close> iterates in insertion order, and the lookup helpers depend
  on that order, so every \<^verbatim>\<open>Map\<close> is an association list here.

  The media engine (mediasoup) and socket.io are outside the source. What a handler
  asks of them is recorded, in program order, in a trace; what the engine answers is an
  argument of the handler (\<open>Inl msg\<close> or \<open>Some msg\<close> for a call that throws an error
  with that message). Each handler is modelled as running from its first statement to
  its last without another handler in between.

  Two things are taken from the engine's contract. Closing a transport fires, inside the
  call, the \<^verbatim>\<open>transportclose\<close> listeners of the producers and consumers created on it
  (producers first, each kind in the order of creation), and so does closing the router
  the transport was created on; a listener fires once. And the engine gives every
  transport an id of its own.
\<close>

subsection \<open>JavaScript Map as an association list\<close>

fun js_get :: "('k \<times> 'v) list \<Rightarrow> 'k \<Rightarrow> 'v option" where
  "js_get [] k = None"
| "js_get ((k', v) # m) k = (if k' = k then Some v else js_get m k)"

definition js_has :: "('k \<times> 'v) list \<Rightarrow> 'k \<Rightarrow> bool" where
  "js_has m k = (js_get m k \<noteq> None)"

text \<open>\<^verbatim>\<open>set\<close> keeps the position of a key that is present and appends a new key.\<close>

fun js_set :: "'k \<Rightarrow> 'v \<Rightarrow> ('k \<times> 'v) list \<Rightarrow> ('k \<times> 'v) list" where
  "js_set k v [] = [(k, v)]"
| "js_set k v ((k', v') # m) = (if k' = k then (k, v) # m else (k', v') # js_set k v m)"

fun js_delete :: "'k \<Rightarrow> ('k \<times> 'v) list \<Rightarrow> ('k \<times> 'v) list" where
  "js_delete k [] = []"
| "js_delete k ((k', v) # m) = (if k' = k then m else (k', v) # js_delete k m)"

text \<open>Changing, in place, the value stored under a key (a write through a reference).\<close>

fun js_modify :: "'k \<Rightarrow> ('v \<Rightarrow> 'v) \<Rightarrow> ('k \<times> 'v) list \<Rightarrow> ('k \<times> 'v) list" where
  "js_modify k f [] = []"
| "js_modify k f ((k', v) # m) = (if k' = k then (k', f v) # m else (k', v) # js_modify k f m)"

subsection \<open>Engine objects, peers and rooms\<close>

type_synonym socket = nat

record transport =
  transport_id :: string
  iceParameters :: string
  iceCandidates :: string
  dtlsParameters :: string
  sctpParameters :: string

record producer =
  producer_id :: string
  producer_kind :: string

record consumer =
  consumer_id :: string
  consumer_producerId :: string
  consumer_kind :: string
  consumer_rtpParameters :: string

record router =
  router_id :: string
  rtpCapabilities :: string

record peer =
  peer_id :: string
  socket :: socket
  transports :: "(string \<times> transport) list"
  producers :: "(string \<times> producer) list"
  consumers :: "(string \<times> consumer) list"

record room =
  router :: router
  peers :: "(string \<times> peer) list"

subsection \<open>Replies, emissions and the trace\<close>

datatype reply =
    ErrorReply string
  | JoinReply transport transport string
  | SuccessReply
  | ProduceReply string
  | ConsumeReply string string string string
  | ProducersReply "(string \<times> string \<times> string) list"

datatype event =
    PeerJoined string
  | NewProducer string string string
  | PeerLeft string

text \<open>
  \<open>Emit sock roomId ev\<close> is \<^verbatim>\<open>socket.to(roomId).emit(...)\<close>: the event goes to the
  sockets of that socket.io room other than \<open>sock\<close>. \<open>Callback r\<close> is the acknowledgment.
  The engine calls carry the id of the object they are made on; the writes to the
  Maps are recorded too, so that the trace orders them against the rest.
\<close>

datatype effect =
    CreateRouter
  | CreateWebRtcTransport string
  | SetMaxIncomingBitrate string
  | TransportConnect string string
  | TransportProduce string string string
  | CanConsume string string string
  | TransportConsume string string string bool
  | ConsumerResume string
  | TransportClose string
  | RouterClose string
  | ProducerClose string
  | ConsumerClose string
  | RoomsSet string
  | RoomsDelete string
  | PeersSet string string
  | PeersDelete string string
  | TransportsSet string string
  | ProducersSet string string
  | ConsumersSet string string
  | ProducersDelete string string
  | ConsumersDelete string string
  | SocketJoin socket string
  | Emit socket string event
  | Callback reply

text \<open>
  A \<^verbatim>\<open>transportclose\<close> listener, as produce (lines 404-407) and consume (lines
  477-480) register it on the producer or consumer they created. Its closure holds that
  object and the peer object. The peer is addressed by the room key and peer id it is
  stored under; \<open>l_attached\<close> tells whether the registry still holds that very object
  there. \<open>l_transport\<close> is the transport the object was created on, which the engine
  knows.
\<close>

record listener =
  l_transport :: string
  l_room :: string
  l_peer :: string
  l_attached :: bool
  l_consumer :: bool
  l_id :: string

record server =
  rooms :: "(string \<times> room) list"
  trace :: "effect list"
  listeners :: "listener list"

definition initial :: server where
  "initial = \<lparr>rooms = [], trace = [], listeners = []\<rparr>"

definition log :: "effect \<Rightarrow> server \<Rightarrow> server" where
  "log e s = s\<lparr>trace := trace s @ [e]\<rparr>"

definition callback :: "reply \<Rightarrow> server \<Rightarrow> server" where
  "callback r s = log (Callback r) s"

text \<open>\<^verbatim>\<open>producer.on('transportclose', ...)\<close> and \<^verbatim>\<open>consumer.on('transportclose', ...)\<close>.\<close>

definition register :: "listener \<Rightarrow> server \<Rightarrow> server" where
  "register l s = s\<lparr>listeners := listeners s @ [l]\<rparr>"

text \<open>A JavaScript value used as a condition: absent and the empty string are falsy.\<close>

fun truthy :: "string option \<Rightarrow> bool" where
  "truthy None = False"
| "truthy (Some v) = (v \<noteq> [])"

subsection \<open>Writes to the registry\<close>

text \<open>
  The source holds references: \<^verbatim>\<open>room.peers.set\<close> and \<^verbatim>\<open>peer.producers.set\<close> write
  into the object the registry holds. Here a room is addressed by its key in
  \<^verbatim>\<open>rooms\<close> and a peer by that key and its own id, under which join-room stored it.
\<close>

definition peers_set :: "string \<Rightarrow> string \<Rightarrow> peer \<Rightarrow> server \<Rightarrow> server" where
  "peers_set roomId peerId p s =
     log (PeersSet roomId peerId)
       (s\<lparr>rooms := js_modify roomId (\<lambda>r. r\<lparr>peers := js_set peerId p (peers r)\<rparr>) (rooms s)\<rparr>)"

text \<open>
  \<^verbatim>\<open>room.peers.delete\<close> takes the peer object out of the registry; the listeners that
  hold it keep it, detached.
\<close>

definition detach :: "string \<Rightarrow> string \<Rightarrow> listener \<Rightarrow> listener" where
  "detach roomId peerId l =
     (if l_room l = roomId \<and> l_peer l = peerId then l\<lparr>l_attached := False\<rparr> else l)"

definition peers_delete :: "string \<Rightarrow> string \<Rightarrow> server \<Rightarrow> server" where
  "peers_delete roomId peerId s =
     log (PeersDelete roomId peerId)
       (s\<lparr>rooms := js_modify roomId (\<lambda>r. r\<lparr>peers := js_delete peerId (peers r)\<rparr>) (rooms s),
          listeners := map (detach roomId peerId) (listeners s)\<rparr>)"

definition rooms_delete :: "string \<Rightarrow> server \<Rightarrow> server" where
  "rooms_delete roomId s = log (RoomsDelete roomId) (s\<lparr>rooms := js_delete roomId (rooms s)\<rparr>)"

definition modify_peer :: "string \<Rightarrow> string \<Rightarrow> (peer \<Rightarrow> peer) \<Rightarrow> server \<Rightarrow> server" where
  "modify_peer roomId peerId f s =
     s\<lparr>rooms := js_modify roomId (\<lambda>r. r\<lparr>peers := js_modify peerId f (peers r)\<rparr>) (rooms s)\<rparr>"

definition transports_set :: "string \<Rightarrow> string \<Rightarrow> transport \<Rightarrow> server \<Rightarrow> server" where
  "transports_set roomId peerId t s =
     log (TransportsSet peerId (transport_id t))
       (modify_peer roomId peerId
          (\<lambda>p. p\<lparr>transports := js_set (transport_id t) t (transports p)\<rparr>) s)"

definition producers_set :: "string \<Rightarrow> string \<Rightarrow> producer \<Rightarrow> server \<Rightarrow> server" where
  "producers_set roomId peerId pr s =
     log (ProducersSet peerId (producer_id pr))
       (modify_peer roomId peerId
          (\<lambda>p. p\<lparr>producers := js_set (producer_id pr) pr (producers p)\<rparr>) s)"

definition consumers_set :: "string \<Rightarrow> string \<Rightarrow> consumer \<Rightarrow> server \<Rightarrow> server" where
  "consumers_set roomId peerId c s =
     log (ConsumersSet peerId (consumer_id c))
       (modify_peer roomId peerId
          (\<lambda>p. p\<lparr>consumers := js_set (consumer_id c) c (consumers p)\<rparr>) s)"

text \<open>
  \<^verbatim>\<open>peer.producers.delete\<close> and \<^verbatim>\<open>peer.consumers.delete\<close> of a listener: a write to
  the registry while the peer is attached, to an object out of reach otherwise.
\<close>

definition producers_delete :: "listener \<Rightarrow> server \<Rightarrow> server" where
  "producers_delete l s =
     log (ProducersDelete (l_peer l) (l_id l))
       (if l_attached l
        then modify_peer (l_room l) (l_peer l)
               (\<lambda>p. p\<lparr>producers := js_delete (l_id l) (producers p)\<rparr>) s
        else s)"

definition consumers_delete :: "listener \<Rightarrow> server \<Rightarrow> server" where
  "consumers_delete l s =
     log (ConsumersDelete (l_peer l) (l_id l))
       (if l_attached l
        then modify_peer (l_room l) (l_peer l)
               (\<lambda>p. p\<lparr>consumers := js_delete (l_id l) (consumers p)\<rparr>) s
        else s)"

subsection \<open>The transportclose listeners\<close>

text \<open>
  The body of a listener: \<^verbatim>\<open>producer.close(); peer.producers.delete(producer.id)\<close>, or
  the same for a consumer.
\<close>

definition runListener :: "listener \<Rightarrow> server \<Rightarrow> server" where
  "runListener l s =
     (if l_consumer l then consumers_delete l (log (ConsumerClose (l_id l)) s)
      else producers_delete l (log (ProducerClose (l_id l)) s))"

text \<open>The listeners that are due, producers first; they are gone once they have run.\<close>

definition dueOrder :: "(listener \<Rightarrow> bool) \<Rightarrow> listener list \<Rightarrow> listener list" where
  "dueOrder due ls =
     filter (\<lambda>l. \<not> l_consumer l) (filter due ls) @ filter l_consumer (filter due ls)"

definition fireListeners :: "(listener \<Rightarrow> bool) \<Rightarrow> server \<Rightarrow> server" where
  "fireListeners due s =
     fold runListener (dueOrder due (listeners s))
       (s\<lparr>listeners := filter (\<lambda>l. \<not> due l) (listeners s)\<rparr>)"

text \<open>
  \<^verbatim>\<open>transport.close()\<close> and \<^verbatim>\<open>router.close()\<close>. The transports of a room are created
  on its router, and a room leaves the registry only with its router closed, so the
  listeners on the transports of a router are those registered for the room's key.
\<close>

definition transportClose :: "string \<Rightarrow> server \<Rightarrow> server" where
  "transportClose transportId s =
     fireListeners (\<lambda>l. l_transport l = transportId) (log (TransportClose transportId) s)"

definition routerClose :: "string \<Rightarrow> string \<Rightarrow> server \<Rightarrow> server" where
  "routerClose roomId routerId s =
     fireListeners (\<lambda>l. l_room l = roomId) (log (RouterClose routerId) s)"

text \<open>
  The \<^verbatim>\<open>dtlsstatechange\<close> listener that join-room registers on each of its two
  transports (lines 303-307, 313-317), for the engine to fire.
\<close>

definition dtlsstatechange :: "string \<Rightarrow> string \<Rightarrow> server \<Rightarrow> server" where
  "dtlsstatechange transportId dtlsState s =
     (if dtlsState = ''closed'' then transportClose transportId s else s)"

subsection \<open>Helper functions\<close>

text \<open>
  \<^verbatim>\<open>getPeerBySocket\<close> returns a reference to the first peer, in iteration order, whose
  socket is the given one; the model returns the peer with the key of the room it was
  found in. \<^verbatim>\<open>getRoomByPeer\<close> returns the key of the first room that has the peer's
  id among its peers' keys.
\<close>

fun getPeerBySocket :: "(string \<times> room) list \<Rightarrow> socket \<Rightarrow> (string \<times> peer) option" where
  "getPeerBySocket [] sock = None"
| "getPeerBySocket ((roomId, r) # rs) sock =
     (case find (\<lambda>p. socket p = sock) (map snd (peers r)) of
        Some p \<Rightarrow> Some (roomId, p)
      | None \<Rightarrow> getPeerBySocket rs sock)"

fun getRoomByPeer :: "(string \<times> room) list \<Rightarrow> peer \<Rightarrow> string option" where
  "getRoomByPeer [] p = None"
| "getRoomByPeer ((roomId, r) # rs) p =
     (if js_has (peers r) (peer_id p) then Some roomId else getRoomByPeer rs p)"

fun getPeerByProducerId :: "(string \<times> room) list \<Rightarrow> string \<Rightarrow> (string \<times> peer) option" where
  "getPeerByProducerId [] producerId = None"
| "getPeerByProducerId ((roomId, r) # rs) producerId =
     (case find (\<lambda>p. js_has (producers p) producerId) (map snd (peers r)) of
        Some p \<Rightarrow> Some (roomId, p)
      | None \<Rightarrow> getPeerByProducerId rs producerId)"

subsection \<open>getOrCreateRoom\<close>

definition getOrCreateRoom :: "string \<Rightarrow> string + router \<Rightarrow> server \<Rightarrow> (string + room) \<times> server" where
  "getOrCreateRoom roomId createRouter s =
     (case js_get (rooms s) roomId of
        Some r \<Rightarrow> (Inr r, s)
      | None \<Rightarrow>
          (let s1 = log CreateRouter s in
           case createRouter of
             Inl err \<Rightarrow> (Inl err, s1)
           | Inr rt \<Rightarrow>
               (let r = \<lparr>router = rt, peers = []\<rparr> in
                (Inr r, log (RoomsSet roomId) (s1\<lparr>rooms := js_set roomId r (rooms s1)\<rparr>)))))"

subsection \<open>join-room\<close>

record join_engine =
  createRouter :: "string + router"
  createSendTransport :: "string + transport"
  setMaxSend :: "string option"
  createRecvTransport :: "string + transport"
  setMaxRecv :: "string option"

text \<open>
  The body of the \<^verbatim>\<open>try\<close> block after the two argument checks; every branch that
  ends in \<open>ErrorReply err\<close> with an engine's message is the \<^verbatim>\<open>catch\<close> block.
  The listeners the handler registers after its acknowledgment run only when the engine
  fires them: \<open>dtlsstatechange\<close> above, and a \<^verbatim>\<open>close\<close> listener that only prints.
\<close>

definition join_room_try :: "socket \<Rightarrow> string \<Rightarrow> string \<Rightarrow> join_engine \<Rightarrow> server \<Rightarrow> server" where
  "join_room_try sock roomId peerId eng s =
     (case getOrCreateRoom roomId (createRouter eng) s of
        (Inl err, s1) \<Rightarrow> callback (ErrorReply err) s1
      | (Inr r, s1) \<Rightarrow>
          if js_has (peers r) peerId then callback (ErrorReply ''Peer already exists in room'') s1
          else
            (let s2 = log (CreateWebRtcTransport (router_id (router r))) s1 in
             case createSendTransport eng of
               Inl err \<Rightarrow> callback (ErrorReply err) s2
             | Inr sendTransport \<Rightarrow>
                 (let s3 = log (SetMaxIncomingBitrate (transport_id sendTransport)) s2 in
                  case setMaxSend eng of
                    Some err \<Rightarrow> callback (ErrorReply err) s3
                  | None \<Rightarrow>
                      (let s4 = log (CreateWebRtcTransport (router_id (router r))) s3 in
                       case createRecvTransport eng of
                         Inl err \<Rightarrow> callback (ErrorReply err) s4
                       | Inr recvTransport \<Rightarrow>
                           (let s5 = log (SetMaxIncomingBitrate (transport_id recvTransport)) s4 in
                            case setMaxRecv eng of
                              Some err \<Rightarrow> callback (ErrorReply err) s5
                            | None \<Rightarrow>
                                (let p = \<lparr>peer_id = peerId, socket = sock, transports = [],
                                          producers = [], consumers = []\<rparr>;
                                     s6 = peers_set roomId peerId p s5;
                                     s7 = transports_set roomId peerId sendTransport s6;
                                     s8 = transports_set roomId peerId recvTransport s7;
                                     s9 = log (SocketJoin sock roomId) s8;
                                     s10 = log (Emit sock roomId (PeerJoined peerId)) s9
                                 in callback (JoinReply sendTransport recvTransport
                                                (rtpCapabilities (router r))) s10))))))"

definition join_room ::
  "socket \<Rightarrow> string option \<Rightarrow> string option \<Rightarrow> bool \<Rightarrow> join_engine \<Rightarrow> server \<Rightarrow> server" where
  "join_room sock roomId peerId has_callback eng s =
     (if \<not> has_callback then s
      else if \<not> truthy roomId then callback (ErrorReply ''roomId and peerId are required'') s
      else if \<not> truthy peerId then callback (ErrorReply ''roomId and peerId are required'') s
      else
        (case (roomId, peerId) of
           (Some rid, Some pid) \<Rightarrow> join_room_try sock rid pid eng s
         | _ \<Rightarrow> callback (ErrorReply ''roomId and peerId are required'') s))"

subsection \<open>connect-transport\<close>

definition connect_transport ::
  "socket \<Rightarrow> string \<Rightarrow> string option \<Rightarrow> bool \<Rightarrow> string option \<Rightarrow> server \<Rightarrow> server" where
  "connect_transport sock transportId dtls has_callback connectResult s =
     (if \<not> has_callback then s
      else if \<not> truthy dtls then callback (ErrorReply ''dtlsParameters is required'') s
      else case dtls of
        None \<Rightarrow> callback (ErrorReply ''dtlsParameters is required'') s
      | Some dtlsParams \<Rightarrow>
          (case getPeerBySocket (rooms s) sock of
             None \<Rightarrow> callback (ErrorReply ''Peer not found'') s
           | Some (home, p) \<Rightarrow>
               (case js_get (transports p) transportId of
                  None \<Rightarrow> callback (ErrorReply ''Transport not found'') s
                | Some t \<Rightarrow>
                    (let s1 = log (TransportConnect (transport_id t) dtlsParams) s in
                     case connectResult of
                       Some err \<Rightarrow>
                         callback (ErrorReply (if err = [] then ''Failed to connect transport''
                                               else err)) s1
                     | None \<Rightarrow> callback SuccessReply s1))))"

subsection \<open>produce\<close>

definition produce ::
  "socket \<Rightarrow> string \<Rightarrow> string \<Rightarrow> string \<Rightarrow> bool \<Rightarrow> string + producer \<Rightarrow> server \<Rightarrow> server" where
  "produce sock transportId kind rtpParameters has_callback produceResult s =
     (if \<not> has_callback then s
      else case getPeerBySocket (rooms s) sock of
        None \<Rightarrow> callback (ErrorReply ''Peer not found'') s
      | Some (home, p) \<Rightarrow>
          (case js_get (transports p) transportId of
             None \<Rightarrow> callback (ErrorReply ''Transport not found'') s
           | Some t \<Rightarrow>
               (let s1 = log (TransportProduce (transport_id t) kind rtpParameters) s in
                case produceResult of
                  Inl err \<Rightarrow> callback (ErrorReply err) s1
                | Inr pr \<Rightarrow>
                    (let s2 = producers_set home (peer_id p) pr s1;
                         s3 = (case getRoomByPeer (rooms s2) p of
                                 None \<Rightarrow> s2
                               | Some roomId \<Rightarrow>
                                   if roomId = [] then s2
                                   else log (Emit sock roomId
                                               (NewProducer (peer_id p) (producer_id pr)
                                                  (producer_kind pr))) s2);
                         s4 = callback (ProduceReply (producer_id pr)) s3
                     in register \<lparr>l_transport = transport_id t, l_room = home,
                                   l_peer = peer_id p, l_attached = True, l_consumer = False,
                                   l_id = producer_id pr\<rparr> s4))))"

subsection \<open>consume\<close>

definition consume ::
  "socket \<Rightarrow> string \<Rightarrow> string \<Rightarrow> string \<Rightarrow> bool \<Rightarrow> bool \<Rightarrow> string + consumer \<Rightarrow> server \<Rightarrow> server" where
  "consume sock transportId producerId rtpCaps has_callback canConsume consumeResult s =
     (if \<not> has_callback then s
      else case getPeerBySocket (rooms s) sock of
        None \<Rightarrow> callback (ErrorReply ''Peer not found'') s
      | Some (home, p) \<Rightarrow>
          (case js_get (transports p) transportId of
             None \<Rightarrow> callback (ErrorReply ''Transport not found'') s
           | Some t \<Rightarrow>
               (case getPeerByProducerId (rooms s) producerId of
                  None \<Rightarrow> callback (ErrorReply ''Producer peer not found'') s
                | Some (producerHome, producerPeer) \<Rightarrow>
                    (case js_get (producers producerPeer) producerId of
                       None \<Rightarrow> callback (ErrorReply ''Producer not found'') s
                     | Some pr \<Rightarrow>
                         (case getRoomByPeer (rooms s) p of
                            None \<Rightarrow> callback (ErrorReply ''Room not found'') s
                          | Some roomKey \<Rightarrow>
                              if roomKey = [] then callback (ErrorReply ''Room not found'') s
                              else
                                (case js_get (rooms s) roomKey of
                                   None \<Rightarrow> callback (ErrorReply ''Room object not found'') s
                                 | Some roomObj \<Rightarrow>
                                     (let s1 = log (CanConsume (router_id (router roomObj))
                                                      producerId rtpCaps) s in
                                      if \<not> canConsume
                                        then callback (ErrorReply ''Cannot consume'') s1
                                      else
                                        (let s2 = log (TransportConsume (transport_id t)
                                                         producerId rtpCaps False) s1 in
                                         case consumeResult of
                                           Inl err \<Rightarrow> callback (ErrorReply err) s2
                                         | Inr c \<Rightarrow>
                                             register
                                               \<lparr>l_transport = transport_id t, l_room = home,
                                                l_peer = peer_id p, l_attached = True,
                                                l_consumer = True, l_id = consumer_id c\<rparr>
                                               (callback
                                                  (ConsumeReply (consumer_id c)
                                                     (consumer_producerId c) (consumer_kind c)
                                                     (consumer_rtpParameters c))
                                                  (consumers_set home (peer_id p) c s2))))))))))"

subsection \<open>resume-consumer\<close>

definition resume_consumer ::
  "socket \<Rightarrow> string \<Rightarrow> bool \<Rightarrow> string option \<Rightarrow> server \<Rightarrow> server" where
  "resume_consumer sock consumerId has_callback resumeResult s =
     (if \<not> has_callback then s
      else case getPeerBySocket (rooms s) sock of
        None \<Rightarrow> callback (ErrorReply ''Peer not found'') s
      | Some (home, p) \<Rightarrow>
          (case js_get (consumers p) consumerId of
             None \<Rightarrow> callback (ErrorReply ''Consumer not found'') s
           | Some c \<Rightarrow>
               (let s1 = log (ConsumerResume (consumer_id c)) s in
                case resumeResult of
                  Some err \<Rightarrow> callback (ErrorReply err) s1
                | None \<Rightarrow> callback SuccessReply s1)))"

subsection \<open>get-producers\<close>

definition listProducers :: "string \<Rightarrow> (string \<times> peer) list \<Rightarrow> (string \<times> string \<times> string) list" where
  "listProducers selfId ps =
     concat (map (\<lambda>(peerId, otherPeer).
                    if peerId \<noteq> selfId
                    then map (\<lambda>(producerId, pr). (peerId, producerId, producer_kind pr))
                           (producers otherPeer)
                    else []) ps)"

definition get_producers :: "socket \<Rightarrow> bool \<Rightarrow> server \<Rightarrow> server" where
  "get_producers sock has_callback s =
     (if \<not> has_callback then s
      else case getPeerBySocket (rooms s) sock of
        None \<Rightarrow> callback (ErrorReply ''Peer not found'') s
      | Some (home, p) \<Rightarrow>
          (case getRoomByPeer (rooms s) p of
             None \<Rightarrow> callback (ErrorReply ''Room not found'') s
           | Some roomKey \<Rightarrow>
               if roomKey = [] then callback (ErrorReply ''Room not found'') s
               else
                 (case js_get (rooms s) roomKey of
                    None \<Rightarrow> callback (ErrorReply ''Room object not found'') s
                  | Some roomObj \<Rightarrow>
                      callback (ProducersReply (listProducers (peer_id p) (peers roomObj))) s)))"

subsection \<open>handlePeerDisconnect\<close>

text \<open>
  \<^verbatim>\<open>room.peers.size\<close> is read after \<^verbatim>\<open>room.peers.delete(peer.id)\<close>, on the room
  object fetched before it; the listeners that ran in between change no key of it.
\<close>

definition closeTransports :: "(string \<times> transport) list \<Rightarrow> server \<Rightarrow> server" where
  "closeTransports ts s = fold (\<lambda>(k, t). transportClose (transport_id t)) ts s"

definition handlePeerDisconnect :: "socket \<Rightarrow> server \<Rightarrow> server" where
  "handlePeerDisconnect sock s =
     (case getPeerBySocket (rooms s) sock of
        None \<Rightarrow> s
      | Some (home, p) \<Rightarrow>
          (case getRoomByPeer (rooms s) p of
             None \<Rightarrow> s
           | Some roomId \<Rightarrow>
               if roomId = [] then s
               else
                 (case js_get (rooms s) roomId of
                    None \<Rightarrow> s
                  | Some r \<Rightarrow>
                      (let s1 = closeTransports (transports p) s;
                           s2 = peers_delete roomId (peer_id p) s1;
                           s3 = log (Emit sock roomId (PeerLeft (peer_id p))) s2
                       in if length (js_delete (peer_id p) (peers r)) = 0
                          then rooms_delete roomId (routerClose roomId (router_id (router r)) s3)
                          else s3))))"

subsection \<open>The payload of a request\<close>

text \<open>
  The listeners of join-room, connect-transport, produce, consume and resume-consumer
  destructure their first argument in the parameter list, outside the \<^verbatim>\<open>try\<close> block.
  With a payload of null or undefined the listener throws there: no statement of the
  handler runs and nothing is replied. What the runtime does with the rejected promise
  is outside the model. The listener of get-producers takes the callback alone.
\<close>

definition on_join_room ::
  "socket \<Rightarrow> (string option \<times> string option) option \<Rightarrow> bool \<Rightarrow> join_engine \<Rightarrow> server \<Rightarrow> server" where
  "on_join_room sock payload has_callback eng s =
     (case payload of
        None \<Rightarrow> s
      | Some (roomId, peerId) \<Rightarrow> join_room sock roomId peerId has_callback eng s)"

definition on_connect_transport ::
  "socket \<Rightarrow> (string \<times> string option) option \<Rightarrow> bool \<Rightarrow> string option \<Rightarrow> server \<Rightarrow> server" where
  "on_connect_transport sock payload has_callback connectResult s =
     (case payload of
        None \<Rightarrow> s
      | Some (transportId, dtls) \<Rightarrow>
          connect_transport sock transportId dtls has_callback connectResult s)"

definition on_produce ::
  "socket \<Rightarrow> (string \<times> string \<times> string) option \<Rightarrow> bool \<Rightarrow> string + producer \<Rightarrow> server \<Rightarrow> server" where
  "on_produce sock payload has_callback produceResult s =
     (case payload of
        None \<Rightarrow> s
      | Some (transportId, kind, rtpParameters) \<Rightarrow>
          produce sock transportId kind rtpParameters has_callback produceResult s)"

definition on_consume ::
  "socket \<Rightarrow> (string \<times> string \<times> string) option \<Rightarrow> bool \<Rightarrow> bool \<Rightarrow> string + consumer \<Rightarrow>
     server \<Rightarrow> server" where
  "on_consume sock payload has_callback canConsume consumeResult s =
     (case payload of
        None \<Rightarrow> s
      | Some (transportId, producerId, rtpCaps) \<Rightarrow>
          consume sock transportId producerId rtpCaps has_callback canConsume consumeResult s)"

definition on_resume_consumer ::
  "socket \<Rightarrow> string option \<Rightarrow> bool \<Rightarrow> string option \<Rightarrow> server \<Rightarrow> server" where
  "on_resume_consumer sock payload has_callback resumeResult s =
     (case payload of
        None \<Rightarrow> s
      | Some consumerId \<Rightarrow> resume_consumer sock consumerId has_callback resumeResult s)"

section \<open>What one run of a handler adds to the trace\<close>

definition new_effects :: "server \<Rightarrow> server \<Rightarrow> effect list" where
  "new_effects s s' = drop (length (trace s)) (trace s')"

text \<open>
  What a successful produce emits between registering the producer and its
  acknowledgment, given the result of \<^verbatim>\<open>getRoomByPeer\<close>.
\<close>

definition newProducerEmission :: "socket \<Rightarrow> string option \<Rightarrow> peer \<Rightarrow> producer \<Rightarrow> effect list" where
  "newProducerEmission sock roomId p pr =
     (case roomId of
        None \<Rightarrow> []
      | Some rk \<Rightarrow>
          if rk = [] then []
          else [Emit sock rk (NewProducer (peer_id p) (producer_id pr) (producer_kind pr))])"

text \<open>What a listener adds to the trace, and the listeners fired by one close.\<close>

definition listenerTrace :: "listener \<Rightarrow> effect list" where
  "listenerTrace l =
     (if l_consumer l then [ConsumerClose (l_id l), ConsumersDelete (l_peer l) (l_id l)]
      else [ProducerClose (l_id l), ProducersDelete (l_peer l) (l_id l)])"

definition firedTrace :: "(listener \<Rightarrow> bool) \<Rightarrow> listener list \<Rightarrow> effect list" where
  "firedTrace due ls = concat (map listenerTrace (dueOrder due ls))"

text \<open>
  What closing a list of transports adds to the trace, given the listeners registered
  before: each close, followed by the listeners on that transport.
\<close>

fun closeTrace :: "listener list \<Rightarrow> (string \<times> transport) list \<Rightarrow> effect list" where
  "closeTrace ls [] = []"
| "closeTrace ls ((k, t) # ts) =
     TransportClose (transport_id t) # firedTrace (\<lambda>l. l_transport l = transport_id t) ls @
     closeTrace (filter (\<lambda>l. l_transport l \<noteq> transport_id t) ls) ts"

text \<open>The listeners left once the transports of a list are closed.\<close>

definition listenersLeft :: "listener list \<Rightarrow> (string \<times> transport) list \<Rightarrow> listener list" where
  "listenersLeft ls ts = filter (\<lambda>l. l_transport l \<notin> set (map (\<lambda>(k, t). transport_id t) ts)) ls"

text \<open>The room ids of the registry, each with the peer ids of the room, in iteration order.\<close>

definition registryKeys :: "(string \<times> room) list \<Rightarrow> (string \<times> string list) list" where
  "registryKeys rs = map (\<lambda>(roomId, r). (roomId, map fst (peers r))) rs"

text \<open>The peers of a socket, each with the key of its room, in iteration order.\<close>

definition socketPeers :: "(string \<times> room) list \<Rightarrow> socket \<Rightarrow> (string \<times> peer) list" where
  "socketPeers rs sock =
     concat (map (\<lambda>(roomId, r). map (\<lambda>p. (roomId, p))
                    (filter (\<lambda>p. socket p = sock) (map snd (peers r)))) rs)"

text \<open>Every peer of the registry with the keys it is stored under.\<close>

definition allPeers :: "(string \<times> room) list \<Rightarrow> (string \<times> string \<times> peer) list" where
  "allPeers rs = concat (map (\<lambda>(roomId, r). map (\<lambda>(k, p). (roomId, k, p)) (peers r)) rs)"

section \<open>Concrete runs\<close>

definition mkTransport :: "string \<Rightarrow> transport" where
  "mkTransport i = \<lparr>transport_id = i, iceParameters = ''ice'', iceCandidates = ''candidates'',
     dtlsParameters = ''dtls'', sctpParameters = ''sctp''\<rparr>"

definition mkRouter :: "string \<Rightarrow> router" where
  "mkRouter i = \<lparr>router_id = i, rtpCapabilities = ''caps''\<rparr>"

text \<open>A peer as join-room leaves it: its two transports, send first, and nothing else.\<close>

definition joinedPeer :: "string \<Rightarrow> socket \<Rightarrow> string \<Rightarrow> string \<Rightarrow> peer" where
  "joinedPeer peerId sock sendId recvId =
     \<lparr>peer_id = peerId, socket = sock,
      transports = [(sendId, mkTransport sendId), (recvId, mkTransport recvId)],
      producers = [], consumers = []\<rparr>"

definition engine_ok :: "string \<Rightarrow> string \<Rightarrow> string \<Rightarrow> join_engine" where
  "engine_ok routerId sendId recvId =
     \<lparr>createRouter = Inr (mkRouter routerId),
      createSendTransport = Inr (mkTransport sendId), setMaxSend = None,
      createRecvTransport = Inr (mkTransport recvId), setMaxRecv = None\<rparr>"

text \<open>The engine creates the router and refuses the first transport.\<close>

definition engine_no_transport :: join_engine where
  "engine_no_transport =
     (engine_ok ''R1'' ''a-send'' ''a-recv'')\<lparr>createSendTransport := Inl ''no port available''\<rparr>"

text \<open>The engine creates the send transport and fails at its bitrate ceiling.\<close>

definition engine_no_bitrate :: join_engine where
  "engine_no_bitrate =
     (engine_ok ''R1'' ''a-send'' ''a-recv'')\<lparr>setMaxSend := Some ''bitrate refused''\<rparr>"

definition video_p1 :: producer where
  "video_p1 = \<lparr>producer_id = ''p1'', producer_kind = ''video''\<rparr>"

definition consumer_c1 :: consumer where
  "consumer_c1 = \<lparr>consumer_id = ''c1'', consumer_producerId = ''p1'', consumer_kind = ''video'',
     consumer_rtpParameters = ''rtp''\<rparr>"

text \<open>Socket 1 joins room r1 as peer a; then socket 2 joins it as peer b.\<close>

definition joined_a :: server where
  "joined_a = join_room 1 (Some ''r1'') (Some ''a'') True (engine_ok ''R1'' ''a-send'' ''a-recv'') initial"

definition joined_ab :: server where
  "joined_ab = join_room 2 (Some ''r1'') (Some ''b'') True (engine_ok ''R1'' ''b-send'' ''b-recv'') joined_a"

text \<open>Peer a then produces video on its send transport.\<close>

definition produced_a :: server where
  "produced_a = produce 1 ''a-send'' ''video'' ''rtp'' True (Inr video_p1) joined_ab"

text \<open>
  Peer b produces instead, and a third socket joins another room, r2, under the peer id
  a, which is free there.
\<close>

definition produced_b :: server where
  "produced_b = produce 2 ''b-send'' ''video'' ''rtp'' True (Inr video_p1) joined_ab"

definition joined_other_a :: server where
  "joined_other_a =
     join_room 3 (Some ''r2'') (Some ''a'') True (engine_ok ''R2'' ''c-send'' ''c-recv'') produced_b"

text \<open>Socket 1, which owns peer a of room r1, joins the same room again as peer c.\<close>

definition joined_twice :: server where
  "joined_twice =
     join_room 1 (Some ''r1'') (Some ''c'') True (engine_ok ''R1'' ''c-send'' ''c-recv'') joined_a"

section \<open>Basic facts\<close>

lemma trace_log [simp]: "trace (log e s) = trace s @ [e]"
  by (simp add: log_def)

lemma rooms_log [simp]: "rooms (log e s) = rooms s"
  by (simp add: log_def)

lemma trace_callback [simp]: "trace (callback r s) = trace s @ [Callback r]"
  by (simp add: callback_def)

lemma rooms_callback [simp]: "rooms (callback r s) = rooms s"
  by (simp add: callback_def)

lemma new_effects_same [simp]: "new_effects s s = []"
  by (simp add: new_effects_def)

lemma transport_id_mkTransport [simp]: "transport_id (mkTransport i) = i"
  by (simp add: mkTransport_def)

lemma js_get_modify:
  "js_get (js_modify k f m) k' = (if k' = k then map_option f (js_get m k') else js_get m k')"
  by (induction m) auto

lemma js_has_modify [simp]: "js_has (js_modify k f m) k' = js_has m k'"
  by (simp add: js_has_def js_get_modify)

lemma getRoomByPeer_modify:
  "(\<And>r. js_has (peers (f r)) (peer_id p) = js_has (peers r) (peer_id p)) \<Longrightarrow>
   getRoomByPeer (js_modify k f rs) p = getRoomByPeer rs p"
  by (induction rs) auto

lemma getRoomByPeer_producers_set [simp]:
  "getRoomByPeer (rooms (producers_set home k pr s)) p = getRoomByPeer (rooms s) p"
  by (simp add: producers_set_def modify_peer_def getRoomByPeer_modify)

lemma trace_producers_set [simp]:
  "trace (producers_set home k pr s) = trace s @ [ProducersSet k (producer_id pr)]"
  by (simp add: producers_set_def modify_peer_def)

lemma listeners_log [simp]: "listeners (log e s) = listeners s"
  by (simp add: log_def)

lemma listeners_callback [simp]: "listeners (callback r s) = listeners s"
  by (simp add: callback_def)

lemma rooms_register [simp]: "rooms (register l s) = rooms s"
  by (simp add: register_def)

lemma trace_register [simp]: "trace (register l s) = trace s"
  by (simp add: register_def)

lemma listeners_register [simp]: "listeners (register l s) = listeners s @ [l]"
  by (simp add: register_def)

lemma trace_modify_peer [simp]: "trace (modify_peer roomId peerId f s) = trace s"
  by (simp add: modify_peer_def)

lemma listeners_modify_peer [simp]: "listeners (modify_peer roomId peerId f s) = listeners s"
  by (simp add: modify_peer_def)

subsection \<open>Listeners and closes\<close>

lemma trace_runListener [simp]: "trace (runListener l s) = trace s @ listenerTrace l"
  by (simp add: runListener_def listenerTrace_def producers_delete_def consumers_delete_def)

lemma listeners_runListener [simp]: "listeners (runListener l s) = listeners s"
  by (simp add: runListener_def producers_delete_def consumers_delete_def)

lemma trace_fold_runListener:
  "trace (fold runListener ls s) = trace s @ concat (map listenerTrace ls)"
  by (induction ls arbitrary: s) auto

lemma listeners_fold_runListener: "listeners (fold runListener ls s) = listeners s"
  by (induction ls arbitrary: s) auto

lemma trace_fireListeners [simp]:
  "trace (fireListeners due s) = trace s @ firedTrace due (listeners s)"
  by (simp add: fireListeners_def firedTrace_def trace_fold_runListener)

lemma listeners_fireListeners [simp]:
  "listeners (fireListeners due s) = filter (\<lambda>l. \<not> due l) (listeners s)"
  by (simp add: fireListeners_def listeners_fold_runListener)

lemma trace_transportClose [simp]:
  "trace (transportClose i s) =
     trace s @ TransportClose i # firedTrace (\<lambda>l. l_transport l = i) (listeners s)"
  by (simp add: transportClose_def)

lemma listeners_transportClose [simp]:
  "listeners (transportClose i s) = filter (\<lambda>l. l_transport l \<noteq> i) (listeners s)"
  by (simp add: transportClose_def)

lemma trace_closeTransports [simp]:
  "trace (closeTransports ts s) = trace s @ closeTrace (listeners s) ts"
  unfolding closeTransports_def by (induction ts arbitrary: s) auto

lemma listeners_closeTransports [simp]:
  "listeners (closeTransports ts s) = listenersLeft (listeners s) ts"
  unfolding closeTransports_def listenersLeft_def
  by (induction ts arbitrary: s) (auto intro: filter_cong)

text \<open>The listeners change what a peer holds, never a key of the registry.\<close>

lemma map_fst_js_modify [simp]: "map fst (js_modify k f m) = map fst m"
  by (induction m) auto

lemma map_fst_js_delete: "map fst (js_delete k m) = remove1 k (map fst m)"
  by (induction m) auto

lemma registryKeys_modify_inner:
  "(\<And>r. map fst (peers (f r)) = map fst (peers r)) \<Longrightarrow>
   registryKeys (js_modify k f rs) = registryKeys rs"
  by (induction rs) (auto simp add: registryKeys_def)

lemma registryKeys_modify_peer [simp]:
  "registryKeys (rooms (modify_peer roomId peerId f s)) = registryKeys (rooms s)"
  by (simp add: modify_peer_def registryKeys_modify_inner)

lemma registryKeys_runListener [simp]:
  "registryKeys (rooms (runListener l s)) = registryKeys (rooms s)"
  by (simp add: runListener_def producers_delete_def consumers_delete_def)

lemma registryKeys_fold_runListener:
  "registryKeys (rooms (fold runListener ls s)) = registryKeys (rooms s)"
  by (induction ls arbitrary: s) auto

lemma registryKeys_fireListeners [simp]:
  "registryKeys (rooms (fireListeners due s)) = registryKeys (rooms s)"
  by (simp add: fireListeners_def registryKeys_fold_runListener)

lemma registryKeys_closeTransports [simp]:
  "registryKeys (rooms (closeTransports ts s)) = registryKeys (rooms s)"
  unfolding closeTransports_def
  by (induction ts arbitrary: s) (auto simp add: transportClose_def)

lemma registryKeys_peer_deleted:
  "registryKeys (js_modify k (\<lambda>r. r\<lparr>peers := js_delete pk (peers r)\<rparr>) rs) =
     js_modify k (remove1 pk) (registryKeys rs)"
  by (induction rs) (auto simp add: registryKeys_def map_fst_js_delete)

lemma registryKeys_room_deleted: "registryKeys (js_delete k rs) = js_delete k (registryKeys rs)"
  by (induction rs) (auto simp add: registryKeys_def)

lemma js_delete_js_modify: "js_delete k (js_modify k f m) = js_delete k m"
  by (induction m) auto

lemma listeners_peers_delete [simp]:
  "listeners (peers_delete roomId k s) = map (detach roomId k) (listeners s)"
  by (simp add: peers_delete_def)

lemma rooms_peers_delete [simp]:
  "rooms (peers_delete roomId k s) =
     js_modify roomId (\<lambda>r. r\<lparr>peers := js_delete k (peers r)\<rparr>) (rooms s)"
  by (simp add: peers_delete_def)

lemma trace_peers_delete [simp]:
  "trace (peers_delete roomId k s) = trace s @ [PeersDelete roomId k]"
  by (simp add: peers_delete_def)

lemma rooms_rooms_delete [simp]: "rooms (rooms_delete roomId s) = js_delete roomId (rooms s)"
  by (simp add: rooms_delete_def)

lemma trace_rooms_delete [simp]: "trace (rooms_delete roomId s) = trace s @ [RoomsDelete roomId]"
  by (simp add: rooms_delete_def)

subsection \<open>Peers of the registry and of a socket\<close>

lemma allPeers_Cons [simp]:
  "allPeers ((k, r) # rs) = map (\<lambda>(pk, p). (k, pk, p)) (peers r) @ allPeers rs"
  by (simp add: allPeers_def)

lemma allPeers_Nil [simp]: "allPeers [] = []"
  by (simp add: allPeers_def)


lemma socketPeers_Nil [simp]: "socketPeers [] sock = []"
  by (simp add: socketPeers_def)

lemma socketPeers_Cons [simp]:
  "socketPeers ((k, r) # rs) sock =
     map (Pair k) (filter (\<lambda>p. socket p = sock) (map snd (peers r))) @ socketPeers rs sock"
  by (simp add: socketPeers_def)








lemma allPeers_new_room:
  "js_get rs k = None \<Longrightarrow> allPeers (js_set k \<lparr>router = rt, peers = []\<rparr> rs) = allPeers rs"
  by (induction rs) (auto split: if_splits)

subsection \<open>The registry of the concrete runs\<close>

lemmas run_defs = join_room_def join_room_try_def getOrCreateRoom_def peers_set_def
  transports_set_def producers_set_def consumers_set_def modify_peer_def js_has_def Let_def
  produce_def

lemmas engine_defs = engine_ok_def engine_no_transport_def engine_no_bitrate_def

lemma rooms_joined_a:
  "rooms joined_a =
     [(''r1'', \<lparr>router = mkRouter ''R1'',
               peers = [(''a'', joinedPeer ''a'' 1 ''a-send'' ''a-recv'')]\<rparr>)]"
  by (simp add: joined_a_def initial_def run_defs engine_defs joinedPeer_def)

lemma rooms_joined_ab:
  "rooms joined_ab =
     [(''r1'', \<lparr>router = mkRouter ''R1'',
               peers = [(''a'', joinedPeer ''a'' 1 ''a-send'' ''a-recv''),
                        (''b'', joinedPeer ''b'' 2 ''b-send'' ''b-recv'')]\<rparr>)]"
  by (simp add: joined_ab_def rooms_joined_a run_defs engine_defs joinedPeer_def)

lemma rooms_produced_a:
  "rooms produced_a =
     [(''r1'', \<lparr>router = mkRouter ''R1'',
               peers = [(''a'', (joinedPeer ''a'' 1 ''a-send'' ''a-recv'')
                                  \<lparr>producers := [(''p1'', video_p1)]\<rparr>),
                        (''b'', joinedPeer ''b'' 2 ''b-send'' ''b-recv'')]\<rparr>)]"
  by (simp add: produced_a_def rooms_joined_ab run_defs joinedPeer_def video_p1_def)

lemma rooms_produced_b:
  "rooms produced_b =
     [(''r1'', \<lparr>router = mkRouter ''R1'',
               peers = [(''a'', joinedPeer ''a'' 1 ''a-send'' ''a-recv''),
                        (''b'', (joinedPeer ''b'' 2 ''b-send'' ''b-recv'')
                                  \<lparr>producers := [(''p1'', video_p1)]\<rparr>)]\<rparr>)]"
  by (simp add: produced_b_def rooms_joined_ab run_defs joinedPeer_def video_p1_def)

lemma rooms_joined_other_a:
  "rooms joined_other_a =
     [(''r1'', \<lparr>router = mkRouter ''R1'',
               peers = [(''a'', joinedPeer ''a'' 1 ''a-send'' ''a-recv''),
                        (''b'', (joinedPeer ''b'' 2 ''b-send'' ''b-recv'')
                                  \<lparr>producers := [(''p1'', video_p1)]\<rparr>)]\<rparr>),
      (''r2'', \<lparr>router = mkRouter ''R2'',
               peers = [(''a'', joinedPeer ''a'' 3 ''c-send'' ''c-recv'')]\<rparr>)]"
  by (simp add: joined_other_a_def rooms_produced_b run_defs engine_defs joinedPeer_def)


subsection \<open>The listeners of the concrete runs\<close>

lemma listeners_join_room [simp]:
  "listeners (join_room sock roomId peerId cb eng s) = listeners s"
  by (simp add: join_room_def join_room_try_def getOrCreateRoom_def peers_set_def
        transports_set_def Let_def split: option.split sum.split prod.split)

lemma listeners_initial [simp]: "listeners initial = []"
  by (simp add: initial_def)

lemma listeners_joined_a [simp]: "listeners joined_a = []"
  by (simp add: joined_a_def)

lemma listeners_joined_ab [simp]: "listeners joined_ab = []"
  by (simp add: joined_ab_def)

lemma listeners_producers_set [simp]: "listeners (producers_set home k pr s) = listeners s"
  by (simp add: producers_set_def)

lemma listeners_consumers_set [simp]: "listeners (consumers_set home k c s) = listeners s"
  by (simp add: consumers_set_def)

lemma listeners_joined_twice [simp]: "listeners joined_twice = []"
  by (simp add: joined_twice_def)

lemma listeners_produced_a:
  "listeners produced_a =
     [\<lparr>l_transport = ''a-send'', l_room = ''r1'', l_peer = ''a'', l_attached = True,
       l_consumer = False, l_id = ''p1''\<rparr>]"
  by (simp add: produced_a_def produce_def rooms_joined_ab joinedPeer_def Let_def video_p1_def
        split: option.split)

subsection \<open>The effects of produce and of consume, branch by branch\<close>

lemma produce_effects:
  "new_effects s (produce sock tid kind rtp cb res s) =
     (if \<not> cb then []
      else case getPeerBySocket (rooms s) sock of
        None \<Rightarrow> [Callback (ErrorReply ''Peer not found'')]
      | Some (home, p) \<Rightarrow>
          (case js_get (transports p) tid of
             None \<Rightarrow> [Callback (ErrorReply ''Transport not found'')]
           | Some t \<Rightarrow>
               (case res of
                  Inl err \<Rightarrow> [TransportProduce (transport_id t) kind rtp, Callback (ErrorReply err)]
                | Inr pr \<Rightarrow>
                    [TransportProduce (transport_id t) kind rtp,
                     ProducersSet (peer_id p) (producer_id pr)] @
                    newProducerEmission sock (getRoomByPeer (rooms s) p) p pr @
                    [Callback (ProduceReply (producer_id pr))])))"
  by (simp add: produce_def new_effects_def Let_def newProducerEmission_def
        split: option.split sum.split prod.split)

lemma consume_effects:
  "new_effects s (consume sock tid pid caps cb cc res s) =
     (if \<not> cb then []
      else case getPeerBySocket (rooms s) sock of
        None \<Rightarrow> [Callback (ErrorReply ''Peer not found'')]
      | Some (home, p) \<Rightarrow>
          (case js_get (transports p) tid of
             None \<Rightarrow> [Callback (ErrorReply ''Transport not found'')]
           | Some t \<Rightarrow>
               (case getPeerByProducerId (rooms s) pid of
                  None \<Rightarrow> [Callback (ErrorReply ''Producer peer not found'')]
                | Some (oh, owner) \<Rightarrow>
                    (case js_get (producers owner) pid of
                       None \<Rightarrow> [Callback (ErrorReply ''Producer not found'')]
                     | Some pr \<Rightarrow>
                         (case getRoomByPeer (rooms s) p of
                            None \<Rightarrow> [Callback (ErrorReply ''Room not found'')]
                          | Some rk \<Rightarrow>
                              if rk = [] then [Callback (ErrorReply ''Room not found'')]
                              else
                                (case js_get (rooms s) rk of
                                   None \<Rightarrow> [Callback (ErrorReply ''Room object not found'')]
                                 | Some ro \<Rightarrow>
                                     if \<not> cc
                                     then [CanConsume (router_id (router ro)) pid caps,
                                           Callback (ErrorReply ''Cannot consume'')]
                                     else
                                       (case res of
                                          Inl err \<Rightarrow>
                                            [CanConsume (router_id (router ro)) pid caps,
                                             TransportConsume (transport_id t) pid caps False,
                                             Callback (ErrorReply err)]
                                        | Inr c \<Rightarrow>
                                            [CanConsume (router_id (router ro)) pid caps,
                                             TransportConsume (transport_id t) pid caps False,
                                             ConsumersSet (peer_id p) (consumer_id c),
                                             Callback (ConsumeReply (consumer_id c)
                                               (consumer_producerId c) (consumer_kind c)
                                               (consumer_rtpParameters c))])))))))"
  by (simp add: consume_def consumers_set_def modify_peer_def new_effects_def Let_def
        split: option.split sum.split prod.split)

subsection \<open>A join that the engine serves\<close>




subsection \<open>One run of the teardown\<close>

lemma handlePeerDisconnect_run:
  assumes "getPeerBySocket (rooms s) sock = Some (home, p)"
    and "getRoomByPeer (rooms s) p = Some roomId"
    and "roomId \<noteq> []"
    and "js_get (rooms s) roomId = Some r"
  shows "new_effects s (handlePeerDisconnect sock s) =
           closeTrace (listeners s) (transports p) @
           [PeersDelete roomId (peer_id p), Emit sock roomId (PeerLeft (peer_id p))] @
           (if js_delete (peer_id p) (peers r) = []
            then RouterClose (router_id (router r)) #
                 firedTrace (\<lambda>l. l_room l = roomId)
                   (map (detach roomId (peer_id p)) (listenersLeft (listeners s) (transports p))) @
                 [RoomsDelete roomId]
            else [])"
    and "registryKeys (rooms (handlePeerDisconnect sock s)) =
           (if js_delete (peer_id p) (peers r) = []
            then js_delete roomId (registryKeys (rooms s))
            else js_modify roomId (remove1 (peer_id p)) (registryKeys (rooms s)))"
  using assms
  by (simp_all add: handlePeerDisconnect_def new_effects_def Let_def routerClose_def
        registryKeys_peer_deleted registryKeys_room_deleted js_delete_js_modify)

section \<open>The claims\<close>

subsection \<open>C1: the owner of the producer is not compared with the consuming peer\<close>

text \<open>
  C1, as the code has it. A consume request is acknowledged with a consumer exactly when
  it carries a callback, the socket's peer is found and holds the transport id among its
  transports, some peer of the registry holds the producer id among its producers, the
  room of the requesting peer is found, the router reports that it can consume and the
  engine's consume call succeeds. The peer that owns the producer is looked up and never
  compared with the requesting peer, so it may be the requesting peer itself.
\<close>

theorem consume_succeeds_iff:
  "(\<exists>cid ppid k rtp. Callback (ConsumeReply cid ppid k rtp)
        \<in> set (new_effects s (consume sock tid pid caps cb cc res s))) \<longleftrightarrow>
   (cb \<and> cc \<and> (\<exists>c. res = Inr c) \<and>
    (\<exists>home p t ownerHome owner pr roomKey roomObj.
       getPeerBySocket (rooms s) sock = Some (home, p) \<and>
       js_get (transports p) tid = Some t \<and>
       getPeerByProducerId (rooms s) pid = Some (ownerHome, owner) \<and>
       js_get (producers owner) pid = Some pr \<and>
       getRoomByPeer (rooms s) p = Some roomKey \<and> roomKey \<noteq> [] \<and>
       js_get (rooms s) roomKey = Some roomObj))"
  by (auto simp add: consume_effects split: option.split sum.split prod.split)

text \<open>Peer a consumes the video of peer b.\<close>

theorem consume_succeeds_iff_witness:
  "\<exists>cid ppid k rtp. Callback (ConsumeReply cid ppid k rtp)
     \<in> set (new_effects produced_b
              (consume 1 ''a-recv'' ''p1'' ''caps'' True True (Inr consumer_c1) produced_b))"
proof -
  have "getPeerBySocket (rooms produced_b) 1 = Some (''r1'', joinedPeer ''a'' 1 ''a-send'' ''a-recv'')"
    and "js_get (transports (joinedPeer ''a'' 1 ''a-send'' ''a-recv'')) ''a-recv'' = Some (mkTransport ''a-recv'')"
    and "getPeerByProducerId (rooms produced_b) ''p1'' =
           Some (''r1'', (joinedPeer ''b'' 2 ''b-send'' ''b-recv'')\<lparr>producers := [(''p1'', video_p1)]\<rparr>)"
    and "js_get (producers ((joinedPeer ''b'' 2 ''b-send'' ''b-recv'')\<lparr>producers := [(''p1'', video_p1)]\<rparr>)) ''p1''
           = Some video_p1"
    and "getRoomByPeer (rooms produced_b) (joinedPeer ''a'' 1 ''a-send'' ''a-recv'') = Some ''r1''"
    and "js_get (rooms produced_b) ''r1'' \<noteq> None"
    by (simp_all add: rooms_produced_b joinedPeer_def js_has_def)
  then show ?thesis
    using consume_succeeds_iff [of produced_b 1 "''a-recv''" "''p1''" "''caps''" True True
        "Inr consumer_c1"]
    by force
qed

text \<open>
  Peer a has produced p1 and asks to consume p1 on its recv transport: the peer found for
  the producer is peer a, the engine is called and the consumer is acknowledged.
\<close>

theorem self_consume_accepted:
  "getPeerBySocket (rooms produced_a) 1 =
     Some (''r1'', (joinedPeer ''a'' 1 ''a-send'' ''a-recv'')\<lparr>producers := [(''p1'', video_p1)]\<rparr>) \<and>
   getPeerByProducerId (rooms produced_a) ''p1'' =
     Some (''r1'', (joinedPeer ''a'' 1 ''a-send'' ''a-recv'')\<lparr>producers := [(''p1'', video_p1)]\<rparr>) \<and>
   new_effects produced_a
     (consume 1 ''a-recv'' ''p1'' ''caps'' True True (Inr consumer_c1) produced_a) =
     [CanConsume ''R1'' ''p1'' ''caps'', TransportConsume ''a-recv'' ''p1'' ''caps'' False,
      ConsumersSet ''a'' ''c1'', Callback (ConsumeReply ''c1'' ''p1'' ''video'' ''rtp'')]"
  by (simp add: consume_effects rooms_produced_a joinedPeer_def js_has_def video_p1_def
        consumer_c1_def mkRouter_def)

subsection \<open>C2: a failed join adds no peer and closes no transport\<close>

text \<open>
  C2, as the code has it. When the router of the room is there (the room exists or the
  engine creates the router) and one of the four engine calls on the transports fails,
  the last effect of join-room is the error acknowledgment, no peer has been added to any
  room, and the handler has closed no transport: what it created stays open.
\<close>

theorem join_room_failure_adds_no_peer_closes_nothing:
  assumes "roomId \<noteq> []" and "peerId \<noteq> []"
    and "js_get (rooms s) roomId \<noteq> None \<or> (\<exists>rt. createRouter eng = Inr rt)"
    and "(\<exists>e. createSendTransport eng = Inl e) \<or> setMaxSend eng \<noteq> None \<or>
         (\<exists>e. createRecvTransport eng = Inl e) \<or> setMaxRecv eng \<noteq> None"
  shows "(\<exists>err. last (new_effects s (join_room sock (Some roomId) (Some peerId) True eng s)) =
                  Callback (ErrorReply err)) \<and>
         (\<forall>t. TransportClose t
                \<notin> set (new_effects s (join_room sock (Some roomId) (Some peerId) True eng s))) \<and>
         allPeers (rooms (join_room sock (Some roomId) (Some peerId) True eng s)) = allPeers (rooms s)"
proof (cases "js_get (rooms s) roomId")
  case None
  with assms(3) obtain rt where rt: "createRouter eng = Inr rt" by auto
  show ?thesis
    using assms(1,2,4) None rt
    by (auto simp add: join_room_def join_room_try_def getOrCreateRoom_def new_effects_def
          Let_def js_has_def allPeers_new_room split: option.splits sum.splits)
next
  case (Some r)
  show ?thesis
    using assms(1,2,4) Some
    by (auto simp add: join_room_def join_room_try_def getOrCreateRoom_def new_effects_def
          Let_def split: option.splits sum.splits)
qed

text \<open>The engine creates the send transport and refuses its bitrate ceiling.\<close>

theorem join_room_failure_adds_no_peer_closes_nothing_witness:
  "last (new_effects initial (join_room 1 (Some ''r1'') (Some ''a'') True engine_no_bitrate initial)) =
     Callback (ErrorReply ''bitrate refused'') \<and>
   allPeers (rooms (join_room 1 (Some ''r1'') (Some ''a'') True engine_no_bitrate initial)) = []"
proof -
  have "''r1'' \<noteq> []" and "''a'' \<noteq> []"
    and "js_get (rooms initial) ''r1'' \<noteq> None \<or> (\<exists>rt. createRouter engine_no_bitrate = Inr rt)"
    and "(\<exists>e. createSendTransport engine_no_bitrate = Inl e) \<or> setMaxSend engine_no_bitrate \<noteq> None \<or>
         (\<exists>e. createRecvTransport engine_no_bitrate = Inl e) \<or> setMaxRecv engine_no_bitrate \<noteq> None"
    by (simp_all add: engine_defs)
  from join_room_failure_adds_no_peer_closes_nothing [OF this, of 1]
  have "allPeers (rooms (join_room 1 (Some ''r1'') (Some ''a'') True engine_no_bitrate initial)) = []"
    by (simp add: initial_def)
  moreover have "last (new_effects initial (join_room 1 (Some ''r1'') (Some ''a'') True engine_no_bitrate initial)) =
     Callback (ErrorReply ''bitrate refused'')"
    by (simp add: initial_def run_defs engine_defs new_effects_def)
  ultimately show ?thesis by simp
qed

text \<open>
  In that run the send transport has been created and the error is acknowledged with no
  close of it in between.
\<close>

theorem created_transport_left_open:
  "new_effects initial (join_room 1 (Some ''r1'') (Some ''a'') True engine_no_bitrate initial) =
     [CreateRouter, RoomsSet ''r1'', CreateWebRtcTransport ''R1'', SetMaxIncomingBitrate ''a-send'',
      Callback (ErrorReply ''bitrate refused'')]"
  by (simp add: initial_def run_defs engine_defs new_effects_def mkRouter_def)

subsection \<open>C3: a transport is looked up by its id, not by its direction\<close>

text \<open>
  C3, as the code has it. For the peer found for the socket, produce and consume are
  answered with Transport not found when the transport id is not a key of the peer's
  transports, and with nothing done. When it is a key, of the send or of the recv
  transport alike, produce calls the engine on that transport and, when the engine
  returns a producer, registers and acknowledges it; consume, when its other lookups
  succeed and the engine returns a consumer, calls the engine on that transport and
  registers and acknowledges the consumer.
\<close>

theorem transport_checked_for_membership_only:
  assumes "getPeerBySocket (rooms s) sock = Some (home, p)"
  shows "(js_get (transports p) tid = None \<longrightarrow>
            produce sock tid kind rtp True pres s = callback (ErrorReply ''Transport not found'') s \<and>
            consume sock tid pid caps True cc cres s = callback (ErrorReply ''Transport not found'') s) \<and>
         (js_get (transports p) tid = Some t \<longrightarrow>
            TransportProduce (transport_id t) kind rtp
              \<in> set (new_effects s (produce sock tid kind rtp True pres s)) \<and>
            (pres = Inr pr \<longrightarrow>
               ProducersSet (peer_id p) (producer_id pr)
                 \<in> set (new_effects s (produce sock tid kind rtp True pres s)) \<and>
               last (new_effects s (produce sock tid kind rtp True pres s)) =
                 Callback (ProduceReply (producer_id pr)))) \<and>
         (js_get (transports p) tid = Some t \<and>
          getPeerByProducerId (rooms s) pid = Some (ownerHome, owner) \<and>
          js_get (producers owner) pid = Some opr \<and>
          getRoomByPeer (rooms s) p = Some roomKey \<and> roomKey \<noteq> [] \<and>
          js_get (rooms s) roomKey = Some roomObj \<and> cres = Inr c \<longrightarrow>
            new_effects s (consume sock tid pid caps True True cres s) =
              [CanConsume (router_id (router roomObj)) pid caps,
               TransportConsume (transport_id t) pid caps False,
               ConsumersSet (peer_id p) (consumer_id c),
               Callback (ConsumeReply (consumer_id c) (consumer_producerId c) (consumer_kind c)
                           (consumer_rtpParameters c))])"
proof (intro conjI)
  show "js_get (transports p) tid = None \<longrightarrow>
          produce sock tid kind rtp True pres s = callback (ErrorReply ''Transport not found'') s \<and>
          consume sock tid pid caps True cc cres s = callback (ErrorReply ''Transport not found'') s"
    using assms by (simp add: produce_def consume_def)
next
  show "js_get (transports p) tid = Some t \<longrightarrow>
          TransportProduce (transport_id t) kind rtp
            \<in> set (new_effects s (produce sock tid kind rtp True pres s)) \<and>
          (pres = Inr pr \<longrightarrow>
             ProducersSet (peer_id p) (producer_id pr)
               \<in> set (new_effects s (produce sock tid kind rtp True pres s)) \<and>
             last (new_effects s (produce sock tid kind rtp True pres s)) =
               Callback (ProduceReply (producer_id pr)))"
    using assms by (simp add: produce_effects split: sum.split)
next
  show "js_get (transports p) tid = Some t \<and>
        getPeerByProducerId (rooms s) pid = Some (ownerHome, owner) \<and>
        js_get (producers owner) pid = Some opr \<and>
        getRoomByPeer (rooms s) p = Some roomKey \<and> roomKey \<noteq> [] \<and>
        js_get (rooms s) roomKey = Some roomObj \<and> cres = Inr c \<longrightarrow>
          new_effects s (consume sock tid pid caps True True cres s) =
            [CanConsume (router_id (router roomObj)) pid caps,
             TransportConsume (transport_id t) pid caps False,
             ConsumersSet (peer_id p) (consumer_id c),
             Callback (ConsumeReply (consumer_id c) (consumer_producerId c) (consumer_kind c)
                         (consumer_rtpParameters c))]"
    using assms by (simp add: consume_effects)
qed

text \<open>
  Peer a consumes the video of peer b on its send transport, and is refused a produce on
  a transport of peer b.
\<close>

theorem transport_checked_for_membership_only_witness:
  "new_effects produced_b (consume 1 ''a-send'' ''p1'' ''caps'' True True (Inr consumer_c1) produced_b) =
     [CanConsume ''R1'' ''p1'' ''caps'', TransportConsume ''a-send'' ''p1'' ''caps'' False,
      ConsumersSet ''a'' ''c1'', Callback (ConsumeReply ''c1'' ''p1'' ''video'' ''rtp'')] \<and>
   produce 1 ''b-send'' ''video'' ''rtp'' True (Inr video_p1) produced_b =
     callback (ErrorReply ''Transport not found'') produced_b"
proof -
  have found: "getPeerBySocket (rooms produced_b) 1 = Some (''r1'', joinedPeer ''a'' 1 ''a-send'' ''a-recv'')"
    by (simp add: rooms_produced_b joinedPeer_def)
  have absent: "js_get (transports (joinedPeer ''a'' 1 ''a-send'' ''a-recv'')) ''b-send'' = None"
    by (simp add: joinedPeer_def)
  have present: "js_get (transports (joinedPeer ''a'' 1 ''a-send'' ''a-recv'')) ''a-send'' = Some (mkTransport ''a-send'') \<and>
      getPeerByProducerId (rooms produced_b) ''p1'' =
        Some (''r1'', (joinedPeer ''b'' 2 ''b-send'' ''b-recv'')\<lparr>producers := [(''p1'', video_p1)]\<rparr>) \<and>
      js_get (producers ((joinedPeer ''b'' 2 ''b-send'' ''b-recv'')\<lparr>producers := [(''p1'', video_p1)]\<rparr>)) ''p1''
        = Some video_p1 \<and>
      getRoomByPeer (rooms produced_b) (joinedPeer ''a'' 1 ''a-send'' ''a-recv'') = Some ''r1'' \<and>
      ''r1'' \<noteq> [] \<and>
      js_get (rooms produced_b) ''r1'' =
        Some \<lparr>router = mkRouter ''R1'',
               peers = [(''a'', joinedPeer ''a'' 1 ''a-send'' ''a-recv''),
                        (''b'', (joinedPeer ''b'' 2 ''b-send'' ''b-recv'')
                                  \<lparr>producers := [(''p1'', video_p1)]\<rparr>)]\<rparr> \<and>
      (Inr consumer_c1 :: string + consumer) = Inr consumer_c1"
    by (simp add: rooms_produced_b joinedPeer_def js_has_def)
  from transport_checked_for_membership_only [OF found, THEN conjunct1, rule_format, OF absent]
  have 1: "produce 1 ''b-send'' ''video'' ''rtp'' True (Inr video_p1) produced_b =
     callback (ErrorReply ''Transport not found'') produced_b"
    by simp
  from transport_checked_for_membership_only [OF found, THEN conjunct2, THEN conjunct2, rule_format, OF present]
  have 2: "new_effects produced_b (consume 1 ''a-send'' ''p1'' ''caps'' True True (Inr consumer_c1) produced_b) =
     [CanConsume ''R1'' ''p1'' ''caps'', TransportConsume ''a-send'' ''p1'' ''caps'' False,
      ConsumersSet ''a'' ''c1'', Callback (ConsumeReply ''c1'' ''p1'' ''video'' ''rtp'')]"
    by (simp add: mkRouter_def consumer_c1_def joinedPeer_def)
  from 1 2 show ?thesis by simp
qed

text \<open>Peer a produces on its recv transport, the second one join-room stored.\<close>

theorem produce_on_recv_transport_accepted:
  "map fst (transports (joinedPeer ''a'' 1 ''a-send'' ''a-recv'')) = [''a-send'', ''a-recv''] \<and>
   getPeerBySocket (rooms joined_ab) 1 = Some (''r1'', joinedPeer ''a'' 1 ''a-send'' ''a-recv'') \<and>
   new_effects joined_ab (produce 1 ''a-recv'' ''video'' ''rtp'' True (Inr video_p1) joined_ab) =
     [TransportProduce ''a-recv'' ''video'' ''rtp'', ProducersSet ''a'' ''p1'',
      Emit 1 ''r1'' (NewProducer ''a'' ''p1'' ''video''), Callback (ProduceReply ''p1'')]"
  by (simp add: produce_effects rooms_joined_ab joinedPeer_def js_has_def
        video_p1_def newProducerEmission_def)

subsection \<open>C4: new-producer is emitted before the acknowledgment\<close>

text \<open>
  C4, as the code has it. When a produce request is acknowledged with a producer id, the
  handler sends that one acknowledgment and no other, and what it emits it emits before:
  when \<^verbatim>\<open>getRoomByPeer\<close> returns a room id for the peer found for the socket, the
  new-producer event with the peer's id and the producer's id and kind, addressed to the
  socket.io room of that id; otherwise nothing. After the acknowledgment the handler
  registers the \<^verbatim>\<open>transportclose\<close> listener of the producer, which the trace does not
  record.
\<close>

theorem new_producer_before_ack:
  assumes "Callback (ProduceReply i) \<in> set (new_effects s (produce sock tid kind rtp cb res s))"
  shows "\<exists>pre. new_effects s (produce sock tid kind rtp cb res s) = pre @ [Callback (ProduceReply i)] \<and>
           (\<forall>r. Callback r \<notin> set pre) \<and>
           (\<forall>home p rk pr. getPeerBySocket (rooms s) sock = Some (home, p) \<and>
               getRoomByPeer (rooms s) p = Some rk \<and> rk \<noteq> [] \<and> res = Inr pr \<longrightarrow>
               Emit sock rk (NewProducer (peer_id p) (producer_id pr) (producer_kind pr)) \<in> set pre) \<and>
           (\<forall>sk rk ev. Emit sk rk ev \<in> set pre \<longrightarrow>
               sk = sock \<and>
               (\<exists>home p. getPeerBySocket (rooms s) sock = Some (home, p) \<and>
                          getRoomByPeer (rooms s) p = Some rk)) \<and>
           (\<exists>l. listeners (produce sock tid kind rtp cb res s) = listeners s @ [l] \<and>
                \<not> l_consumer l \<and> l_id l = i)"
proof -
  from assms obtain home p t pr where run:
    "cb" "getPeerBySocket (rooms s) sock = Some (home, p)" "js_get (transports p) tid = Some t"
    "res = Inr pr" "i = producer_id pr"
    by (auto simp add: produce_effects newProducerEmission_def
          split: option.splits sum.splits prod.splits if_splits)
  have l: "listeners (produce sock tid kind rtp cb res s) =
      listeners s @ [\<lparr>l_transport = transport_id t, l_room = home, l_peer = peer_id p,
                      l_attached = True, l_consumer = False, l_id = producer_id pr\<rparr>]"
    using run by (simp add: produce_def Let_def split: option.split)
  show ?thesis
    using run l
    by (auto simp add: produce_effects newProducerEmission_def split: option.splits if_splits)
qed

text \<open>Peer a produces video while peer b is in the room.\<close>

theorem new_producer_before_ack_witness:
  "\<exists>pre. new_effects joined_ab produced_a = pre @ [Callback (ProduceReply ''p1'')] \<and>
         Emit 1 ''r1'' (NewProducer ''a'' ''p1'' ''video'') \<in> set pre"
proof -
  have ack: "Callback (ProduceReply ''p1'')
      \<in> set (new_effects joined_ab (produce 1 ''a-send'' ''video'' ''rtp'' True (Inr video_p1) joined_ab))"
    by (simp add: produce_effects rooms_joined_ab joinedPeer_def js_has_def video_p1_def
          newProducerEmission_def)
  have found: "getPeerBySocket (rooms joined_ab) 1 = Some (''r1'', joinedPeer ''a'' 1 ''a-send'' ''a-recv'')"
    and room: "getRoomByPeer (rooms joined_ab) (joinedPeer ''a'' 1 ''a-send'' ''a-recv'') = Some ''r1''"
    by (simp_all add: rooms_joined_ab joinedPeer_def js_has_def)
  from new_producer_before_ack [OF ack] found room
  show ?thesis
    by (fastforce simp add: produced_a_def joinedPeer_def video_p1_def)
qed

text \<open>The effects of that produce, in order: the emission precedes the acknowledgment.\<close>

theorem new_producer_emitted_first:
  "new_effects joined_ab (produce 1 ''a-send'' ''video'' ''rtp'' True (Inr video_p1) joined_ab) =
     [TransportProduce ''a-send'' ''video'' ''rtp'', ProducersSet ''a'' ''p1'',
      Emit 1 ''r1'' (NewProducer ''a'' ''p1'' ''video''), Callback (ProduceReply ''p1'')]"
  by (simp add: produce_effects rooms_joined_ab joinedPeer_def js_has_def
        video_p1_def newProducerEmission_def)

subsection \<open>C5: the order of the teardown\<close>

text \<open>
  C5, as the code has it. For the peer found for the socket and the room that
  \<^verbatim>\<open>getRoomByPeer\<close> returns for it, the teardown first calls close on each of the
  peer's transports, in the order of the Map; inside each call the \<^verbatim>\<open>transportclose\<close>
  listeners of the producers and consumers on that transport close them and delete them
  from the peer's Maps. Then it deletes the peer's id from that room, then emits peer-left
  to that room, and only then, if the room has no peer left, closes the router, with the
  listeners still registered for the room, and removes the room. In the registry one
  occurrence of the peer's id leaves that room, or the room leaves with it.
\<close>

theorem teardown_order:
  assumes "getPeerBySocket (rooms s) sock = Some (home, p)"
    and "getRoomByPeer (rooms s) p = Some roomId"
    and "roomId \<noteq> []"
    and "js_get (rooms s) roomId = Some r"
  shows "new_effects s (handlePeerDisconnect sock s) =
           closeTrace (listeners s) (transports p) @
           [PeersDelete roomId (peer_id p), Emit sock roomId (PeerLeft (peer_id p))] @
           (if js_delete (peer_id p) (peers r) = []
            then RouterClose (router_id (router r)) #
                 firedTrace (\<lambda>l. l_room l = roomId)
                   (map (detach roomId (peer_id p)) (listenersLeft (listeners s) (transports p))) @
                 [RoomsDelete roomId]
            else []) \<and>
         registryKeys (rooms (handlePeerDisconnect sock s)) =
           (if js_delete (peer_id p) (peers r) = []
            then js_delete roomId (registryKeys (rooms s))
            else js_modify roomId (remove1 (peer_id p)) (registryKeys (rooms s)))"
  using handlePeerDisconnect_run [OF assms] by simp

text \<open>
  Peer a, which produces p1 on its send transport, disconnects and peer b stays: the
  producer is closed inside the close of the send transport.
\<close>

theorem teardown_order_witness:
  "new_effects produced_a (handlePeerDisconnect 1 produced_a) =
     [TransportClose ''a-send'', ProducerClose ''p1'', ProducersDelete ''a'' ''p1'',
      TransportClose ''a-recv'', PeersDelete ''r1'' ''a'', Emit 1 ''r1'' (PeerLeft ''a'')] \<and>
   registryKeys (rooms (handlePeerDisconnect 1 produced_a)) = [(''r1'', [''b''])]"
proof -
  have "getPeerBySocket (rooms produced_a) 1 =
          Some (''r1'', (joinedPeer ''a'' 1 ''a-send'' ''a-recv'')\<lparr>producers := [(''p1'', video_p1)]\<rparr>)"
    and "getRoomByPeer (rooms produced_a)
           ((joinedPeer ''a'' 1 ''a-send'' ''a-recv'')\<lparr>producers := [(''p1'', video_p1)]\<rparr>) = Some ''r1''"
    and "''r1'' \<noteq> []"
    and "js_get (rooms produced_a) ''r1'' =
           Some \<lparr>router = mkRouter ''R1'',
                 peers = [(''a'', (joinedPeer ''a'' 1 ''a-send'' ''a-recv'')
                                    \<lparr>producers := [(''p1'', video_p1)]\<rparr>),
                          (''b'', joinedPeer ''b'' 2 ''b-send'' ''b-recv'')]\<rparr>"
    by (simp_all add: rooms_produced_a joinedPeer_def js_has_def)
  from teardown_order [OF this] show ?thesis
    by (simp add: rooms_produced_a listeners_produced_a joinedPeer_def registryKeys_def
          firedTrace_def dueOrder_def listenerTrace_def)
qed

text \<open>
  The only peer of room r1 disconnects: peer-left is emitted before the router is closed
  and before the room is removed.
\<close>

theorem peer_left_before_room_cleanup:
  "new_effects joined_a (handlePeerDisconnect 1 joined_a) =
     [TransportClose ''a-send'', TransportClose ''a-recv'', PeersDelete ''r1'' ''a'',
      Emit 1 ''r1'' (PeerLeft ''a''), RouterClose ''R1'', RoomsDelete ''r1'']"
  by (simp add: handlePeerDisconnect_def new_effects_def rooms_joined_a joinedPeer_def
        js_has_def mkRouter_def firedTrace_def dueOrder_def routerClose_def
        listenersLeft_def Let_def)

subsection \<open>C6: an empty room after a failed join\<close>

text \<open>
  C6, at the failing input. The registry is empty, socket 1 asks to join room r1 as
  peer a, the engine creates the router and refuses the first transport. The handler
  acknowledges the error; room r1 stays in the registry with no peer, and its router
  is not closed.
\<close>

theorem failed_join_leaves_empty_room:
  "rooms (join_room 1 (Some ''r1'') (Some ''a'') True engine_no_transport initial) =
     [(''r1'', \<lparr>router = mkRouter ''R1'', peers = []\<rparr>)] \<and>
   new_effects initial (join_room 1 (Some ''r1'') (Some ''a'') True engine_no_transport initial) =
     [CreateRouter, RoomsSet ''r1'', CreateWebRtcTransport ''R1'',
      Callback (ErrorReply ''no port available'')]"
  by (simp add: initial_def run_defs engine_defs new_effects_def mkRouter_def)

subsection \<open>C7: get-producers and a peer id used in two rooms\<close>

text \<open>
  C7, at the failing input. Room r1 holds peers a and b, and b has produced p1; socket 3
  has joined room r2 as peer a and is alone there. Its get-producers is answered with
  the producer of b, a peer of room r1: \<^verbatim>\<open>getRoomByPeer\<close> takes the first room that has
  a peer of that id.
\<close>

theorem get_producers_lists_another_room:
  "getPeerBySocket (rooms joined_other_a) 3 =
     Some (''r2'', joinedPeer ''a'' 3 ''c-send'' ''c-recv'') \<and>
   map (\<lambda>(k, r). (k, map fst (peers r))) (rooms joined_other_a) =
     [(''r1'', [''a'', ''b'']), (''r2'', [''a''])] \<and>
   new_effects joined_other_a (get_producers 3 True joined_other_a) =
     [Callback (ProducersReply [(''b'', ''p1'', ''video'')])]"
  by (simp add: rooms_joined_other_a get_producers_def listProducers_def new_effects_def
        joinedPeer_def js_has_def video_p1_def)

subsection \<open>C8: consumers are created unpaused\<close>

text \<open>
  C8. Every call of the engine's consume that the consume handler makes carries
  \<^verbatim>\<open>paused: false\<close>, and a consume request that is acknowledged with a consumer has
  made that call, for the producer id and the capabilities of the request.
\<close>

theorem consume_passes_paused_false:
  "(TransportConsume t p c b \<in> set (new_effects s (consume sock tid pid caps cb cc res s))
      \<longrightarrow> \<not> b) \<and>
   (Callback (ConsumeReply cid ppid k rtp)
        \<in> set (new_effects s (consume sock tid pid caps cb cc res s))
      \<longrightarrow> (\<exists>t. TransportConsume t pid caps False
                 \<in> set (new_effects s (consume sock tid pid caps cb cc res s))))"
  by (simp add: consume_effects split: option.split sum.split prod.split)

text \<open>Peer a consumes the video of peer b on its recv transport.\<close>

theorem consume_passes_paused_false_witness:
  "Callback (ConsumeReply ''c1'' ''p1'' ''video'' ''rtp'')
     \<in> set (new_effects produced_b
              (consume 1 ''a-recv'' ''p1'' ''caps'' True True (Inr consumer_c1) produced_b)) \<and>
   (\<exists>t. TransportConsume t ''p1'' ''caps'' False
     \<in> set (new_effects produced_b
              (consume 1 ''a-recv'' ''p1'' ''caps'' True True (Inr consumer_c1) produced_b)))"
proof -
  have ack: "Callback (ConsumeReply ''c1'' ''p1'' ''video'' ''rtp'')
     \<in> set (new_effects produced_b
              (consume 1 ''a-recv'' ''p1'' ''caps'' True True (Inr consumer_c1) produced_b))"
    by (simp add: consume_effects rooms_produced_b joinedPeer_def js_has_def video_p1_def
          consumer_c1_def)
  from consume_passes_paused_false [THEN conjunct2, rule_format, OF ack] ack
  show ?thesis by blast
qed

subsection \<open>C9: requests on a socket that owns no peer\<close>

text \<open>
  C9, as the code has it. On a socket for which no peer is found, a request that comes
  with a payload and a callback does nothing but acknowledge Peer not found, except
  connect-transport with falsy dtlsParameters (absent or empty), which acknowledges that
  they are required: it checks them before it looks for the peer. A request with a
  payload and without a callback does nothing at all. A request whose payload is null or
  undefined throws before the first statement of its handler, with or without a callback:
  nothing is replied and nothing changes. A disconnect changes nothing.
\<close>

theorem no_peer_replies:
  assumes "getPeerBySocket (rooms s) sock = None"
  shows "on_connect_transport sock (Some (tid, dtls)) True cres s =
           callback (ErrorReply (if truthy dtls then ''Peer not found''
                                 else ''dtlsParameters is required'')) s \<and>
         on_produce sock (Some (tid, kind, rtp)) True pres s =
           callback (ErrorReply ''Peer not found'') s \<and>
         on_consume sock (Some (tid, pid, caps)) True cc res s =
           callback (ErrorReply ''Peer not found'') s \<and>
         on_resume_consumer sock (Some cid) True rres s =
           callback (ErrorReply ''Peer not found'') s \<and>
         get_producers sock True s = callback (ErrorReply ''Peer not found'') s \<and>
         on_connect_transport sock (Some (tid, dtls)) False cres s = s \<and>
         on_produce sock (Some (tid, kind, rtp)) False pres s = s \<and>
         on_consume sock (Some (tid, pid, caps)) False cc res s = s \<and>
         on_resume_consumer sock (Some cid) False rres s = s \<and>
         get_producers sock False s = s \<and>
         on_connect_transport sock None cb cres s = s \<and>
         on_produce sock None cb pres s = s \<and>
         on_consume sock None cb cc res s = s \<and>
         on_resume_consumer sock None cb rres s = s \<and>
         handlePeerDisconnect sock s = s"
  using assms
  by (cases dtls)
     (simp_all add: on_connect_transport_def on_produce_def on_consume_def on_resume_consumer_def
        connect_transport_def produce_def consume_def resume_consumer_def
        get_producers_def handlePeerDisconnect_def)

text \<open>Socket 5 has joined no room.\<close>

theorem no_peer_replies_witness:
  "getPeerBySocket (rooms joined_a) 5 = None \<and>
   on_produce 5 (Some (''a-send'', ''video'', ''rtp'')) True (Inr video_p1) joined_a =
     callback (ErrorReply ''Peer not found'') joined_a \<and>
   on_connect_transport 5 (Some (''a-send'', Some ''dtls'')) True None joined_a =
     callback (ErrorReply ''Peer not found'') joined_a \<and>
   on_connect_transport 5 (Some (''a-send'', Some [])) True None joined_a =
     callback (ErrorReply ''dtlsParameters is required'') joined_a \<and>
   on_consume 5 None True True (Inr consumer_c1) joined_a = joined_a \<and>
   get_producers 5 True joined_a = callback (ErrorReply ''Peer not found'') joined_a \<and>
   handlePeerDisconnect 5 joined_a = joined_a"
proof -
  have none: "getPeerBySocket (rooms joined_a) 5 = None"
    by (simp add: rooms_joined_a joinedPeer_def)
  from no_peer_replies [OF none, of "''a-send''" "Some ''dtls''" None "''video''" "''rtp''" "Inr video_p1"
      _ _ True "Inr consumer_c1"]
    no_peer_replies [OF none, of "''a-send''" "Some []" None]
    none
  show ?thesis by simp
qed

text \<open>Socket 5 owns no peer and sends connect-transport without dtlsParameters.\<close>

theorem missing_dtls_checked_first:
  "getPeerBySocket (rooms joined_a) 5 = None \<and>
   new_effects joined_a (connect_transport 5 ''a-send'' None True None joined_a) =
     [Callback (ErrorReply ''dtlsParameters is required'')]"
  by (simp add: rooms_joined_a joinedPeer_def connect_transport_def new_effects_def)

subsection \<open>C10: one socket, several peers\<close>



end
